theory Spec2Isabelle
  imports Complex_Main "HOL-Library.Multiset"
begin

section \<open>JavaScript strings, numbers and values\<close>

text \<open>
  The dashboard is plain JavaScript. A string is a sequence of UTF-16 code units; the
  model covers the code units below 256, which is what \<^typ>\<open>char\<close> holds. A number is
  a double in the source; the model computes with exact rationals, and keeps
  \<open>NaN\<close> and the two infinities as separate results of the conversions that can
  produce them. Decimal text with more digits or a larger exponent than a double holds
  is therefore read exactly here and rounded there.
\<close>

datatype jsnum = NaN | PosInf | NegInf | Num rat

definition isWhiteSpace :: "char \<Rightarrow> bool" where
  "isWhiteSpace c = (of_char c \<in> {9, 10, 11, 12, 13, 32, 160 :: int})"

definition isDigit :: "char \<Rightarrow> bool" where
  "isDigit c = (48 \<le> (of_char c :: int) \<and> (of_char c :: int) \<le> 57)"

text \<open>\<open>String.prototype.trim\<close>, \<open>trimStart\<close>.\<close>

definition trimStart :: "string \<Rightarrow> string" where
  "trimStart s = dropWhile isWhiteSpace s"

definition trim :: "string \<Rightarrow> string" where
  "trim s = rev (dropWhile isWhiteSpace (rev (dropWhile isWhiteSpace s)))"

text \<open>
  \<open>String.prototype.toLowerCase\<close> on code units below 256: the letters A to Z and the
  Latin-1 capitals (0xC0 to 0xDE without the multiplication sign 0xD7) move up by 32.
\<close>

definition lowerChar :: "char \<Rightarrow> char" where
  "lowerChar c =
     (let n = (of_char c :: int)
      in if (65 \<le> n \<and> n \<le> 90) \<or> (192 \<le> n \<and> n \<le> 222 \<and> n \<noteq> 215)
         then char_of (n + 32) else c)"

definition toLowerCase :: "string \<Rightarrow> string" where
  "toLowerCase s = map lowerChar s"

text \<open>\<open>String.prototype.startsWith\<close> and \<open>includes\<close>.\<close>

fun startsWith :: "string \<Rightarrow> string \<Rightarrow> bool" where
  "startsWith s [] = True"
| "startsWith [] (p # ps) = False"
| "startsWith (c # cs) (p # ps) = (c = p \<and> startsWith cs ps)"

fun includesStr :: "string \<Rightarrow> string \<Rightarrow> bool" where
  "includesStr [] p = (p = [])"
| "includesStr (c # cs) p = (startsWith (c # cs) p \<or> includesStr cs p)"

text \<open>\<open>s.split(sep)\<close> for a one-character separator: never the empty list.\<close>

fun splitOn :: "char \<Rightarrow> string \<Rightarrow> string list" where
  "splitOn sep [] = [[]]"
| "splitOn sep (c # cs) =
     (case splitOn sep cs of
        [] \<Rightarrow> (if c = sep then [[], []] else [[c]])
      | w # ws \<Rightarrow> (if c = sep then [] # w # ws else (c # w) # ws))"

text \<open>\<open>Array.prototype.join\<close> on strings.\<close>

fun joinWith :: "string \<Rightarrow> string list \<Rightarrow> string" where
  "joinWith sep [] = []"
| "joinWith sep [x] = x"
| "joinWith sep (x # y # ys) = x @ sep @ joinWith sep (y # ys)"

subsection \<open>Reading numbers\<close>

definition digitVal :: "char \<Rightarrow> int" where
  "digitVal c = of_char c - 48"

definition digitsVal :: "string \<Rightarrow> int" where
  "digitsVal ds = foldl (\<lambda>acc d. 10 * acc + digitVal d) 0 ds"

definition pow10 :: "int \<Rightarrow> rat" where
  "pow10 e = (if 0 \<le> e then 10 ^ nat e else 1 / 10 ^ nat (- e))"

text \<open>
  The longest prefix of the text that is a \<open>StrDecimalLiteral\<close> of the language
  standard: an optional sign, then \<open>Infinity\<close> or digits with an optional fraction and
  an optional exponent (the exponent only when a digit follows it). The result is the
  value and the unread rest; \<open>None\<close> when no prefix is a literal.
\<close>

definition readExponent :: "string \<Rightarrow> int \<times> string" where
  "readExponent s =
     (case s of
        [] \<Rightarrow> (0, s)
      | c # r \<Rightarrow>
          if c = CHR ''e'' \<or> c = CHR ''E'' then
            (let (neg, r') = (case r of
                                 [] \<Rightarrow> (False, r)
                               | d # r'' \<Rightarrow> if d = CHR ''-'' then (True, r'')
                                            else if d = CHR ''+'' then (False, r'')
                                            else (False, r));
                 ds = takeWhile isDigit r'
             in if ds = [] then (0, s)
                else ((if neg then - digitsVal ds else digitsVal ds),
                      dropWhile isDigit r'))
          else (0, s))"

definition readDecimal :: "string \<Rightarrow> (jsnum \<times> string) option" where
  "readDecimal s =
     (let (neg, s1) = (case s of
                         [] \<Rightarrow> (False, s)
                       | c # r \<Rightarrow> if c = CHR ''-'' then (True, r)
                                  else if c = CHR ''+'' then (False, r)
                                  else (False, s))
      in if startsWith s1 ''Infinity''
         then Some (if neg then NegInf else PosInf, drop 8 s1)
         else
           (let ip = takeWhile isDigit s1;
                r1 = dropWhile isDigit s1;
                (fp, r2) = (case r1 of
                              [] \<Rightarrow> ([], r1)
                            | c # r \<Rightarrow> if c = CHR ''.''
                                       then (if ip = [] \<and> takeWhile isDigit r = []
                                             then ([], r1)
                                             else (takeWhile isDigit r, dropWhile isDigit r))
                                       else ([], r1))
            in if ip = [] \<and> fp = [] then None
               else
                 (let (e, r3) = readExponent r2;
                      m = of_int (digitsVal (ip @ fp)) * pow10 (e - int (length fp))
                  in Some (Num (if neg then - m else m), r3))))"

text \<open>The global \<open>parseFloat\<close>: leading white space is skipped, the rest is ignored.\<close>

definition parseFloat :: "string \<Rightarrow> jsnum" where
  "parseFloat s = (case readDecimal (trimStart s) of None \<Rightarrow> NaN | Some (v, _) \<Rightarrow> v)"

text \<open>
  \<open>ToNumber\<close> on a string (the conversion a comparison with a number applies): the
  whole trimmed text must be a literal; the empty text is 0; the prefixes \<open>0x\<close>,
  \<open>0o\<close> and \<open>0b\<close> introduce an unsigned integer in base 16, 8 and 2.
\<close>

definition radixDigit :: "char \<Rightarrow> int option" where
  "radixDigit c =
     (let n = (of_char c :: int)
      in if 48 \<le> n \<and> n \<le> 57 then Some (n - 48)
         else if 97 \<le> n \<and> n \<le> 102 then Some (n - 87)
         else if 65 \<le> n \<and> n \<le> 70 then Some (n - 55)
         else None)"

definition readRadix :: "int \<Rightarrow> string \<Rightarrow> jsnum" where
  "readRadix b ds =
     (if ds \<noteq> [] \<and> (\<forall>d \<in> set ds. case radixDigit d of None \<Rightarrow> False | Some v \<Rightarrow> v < b)
      then Num (of_int (foldl (\<lambda>acc d. b * acc + the (radixDigit d)) 0 ds))
      else NaN)"

definition stringToNumber :: "string \<Rightarrow> jsnum" where
  "stringToNumber s =
     (let t = trim s
      in if t = [] then Num 0
         else if startsWith t ''0x'' \<or> startsWith t ''0X'' then readRadix 16 (drop 2 t)
         else if startsWith t ''0o'' \<or> startsWith t ''0O'' then readRadix 8 (drop 2 t)
         else if startsWith t ''0b'' \<or> startsWith t ''0B'' then readRadix 2 (drop 2 t)
         else (case readDecimal t of
                 Some (v, []) \<Rightarrow> v
               | _ \<Rightarrow> NaN))"

subsection \<open>Writing numbers\<close>

text \<open>
  \<open>Number::toString\<close> of the language standard, for a value with a finite decimal
  expansion (every value read from decimal text has one): the digits \<open>s\<close> without
  trailing zeros, their count \<open>k\<close>, and the position \<open>n\<close> of the decimal point, laid out
  plainly when \<open>-6 < n \<le> 21\<close> and in exponent notation otherwise.
\<close>

function natDigits :: "int \<Rightarrow> string" where
  "natDigits n = (if n < 10 then [char_of (48 + n)]
                  else natDigits (n div 10) @ [char_of (48 + n mod 10)])"
  by pat_completeness auto
termination
  by (relation "measure nat") auto

function stripZeros :: "int \<Rightarrow> int \<Rightarrow> int \<times> int" where
  "stripZeros m z = (if 0 < m \<and> m mod 10 = 0 then stripZeros (m div 10) (z + 1) else (m, z))"
  by pat_completeness auto
termination
  by (relation "measure (\<lambda>(m, z). nat m)") auto

text \<open>How often the factor \<open>b\<close> divides \<open>q\<close>, and the least \<open>e\<close> with \<open>q\<close> dividing \<open>10 ^ e\<close>.\<close>

function multiplicity_of :: "int \<Rightarrow> int \<Rightarrow> nat" where
  "multiplicity_of b q =
     (if 1 < b \<and> 0 < q \<and> q mod b = 0 then Suc (multiplicity_of b (q div b)) else 0)"
  by pat_completeness auto
termination
  by (relation "measure (\<lambda>(b, q). nat q)") (auto simp: int_div_less_self)

declare natDigits.simps [simp del] stripZeros.simps [simp del] multiplicity_of.simps [simp del]

definition decimalScale :: "int \<Rightarrow> nat" where
  "decimalScale q = max (multiplicity_of 2 q) (multiplicity_of 5 q)"

definition posToString :: "rat \<Rightarrow> string" where
  "posToString r =
     (let (p, q) = quotient_of r;
          e = decimalScale q;
          (s, z) = stripZeros ((p * 10 ^ e) div q) 0;
          ds = natDigits s;
          k = int (length ds);
          n = k + z - int e
      in if k \<le> n \<and> n \<le> 21 then ds @ replicate (nat (n - k)) CHR ''0''
         else if 0 < n \<and> n \<le> 21 then take (nat n) ds @ ''.'' @ drop (nat n) ds
         else if - 6 < n \<and> n \<le> 0 then ''0.'' @ replicate (nat (- n)) CHR ''0'' @ ds
         else (let x = n - 1;
                   ex = (if x < 0 then ''-'' else ''+'') @ natDigits \<bar>x\<bar>
               in if k = 1 then ds @ ''e'' @ ex
                  else take 1 ds @ ''.'' @ drop 1 ds @ ''e'' @ ex))"

definition numToString :: "rat \<Rightarrow> string" where
  "numToString r = (if r = 0 then ''0''
                    else if r < 0 then ''-'' @ posToString (- r)
                    else posToString r)"

subsection \<open>Values and objects\<close>

text \<open>
  The values a row can hold: \<open>null\<close>, a finite number, a string, an array of strings
  (the risk factors). \<open>undefined\<close> is the absent property.
\<close>

datatype jsval = JNull | JNum rat | JStr string | JArr "string list"

fun truthy :: "jsval option \<Rightarrow> bool" where
  "truthy None = False"
| "truthy (Some JNull) = False"
| "truthy (Some (JNum r)) = (r \<noteq> 0)"
| "truthy (Some (JStr s)) = (s \<noteq> [])"
| "truthy (Some (JArr xs)) = True"

text \<open>\<open>String(v)\<close>, as a template literal and \<open>join\<close> apply it.\<close>

fun toStr :: "jsval option \<Rightarrow> string" where
  "toStr None = ''undefined''"
| "toStr (Some JNull) = ''null''"
| "toStr (Some (JNum r)) = numToString r"
| "toStr (Some (JStr s)) = s"
| "toStr (Some (JArr xs)) = joinWith '','' xs"

text \<open>\<open>ToNumber(v)\<close>.\<close>

fun toNumber :: "jsval option \<Rightarrow> jsnum" where
  "toNumber None = NaN"
| "toNumber (Some JNull) = Num 0"
| "toNumber (Some (JNum r)) = Num r"
| "toNumber (Some (JStr s)) = stringToNumber s"
| "toNumber (Some (JArr xs)) = stringToNumber (joinWith '','' xs)"

text \<open>\<open>v < c\<close> and \<open>v >= c\<close>, \<open>v <= c\<close> against a number: false when \<open>v\<close> converts to \<open>NaN\<close>.\<close>

fun numLt :: "jsnum \<Rightarrow> rat \<Rightarrow> bool" where
  "numLt NaN c = False"
| "numLt PosInf c = False"
| "numLt NegInf c = True"
| "numLt (Num r) c = (r < c)"

fun numLe :: "jsnum \<Rightarrow> rat \<Rightarrow> bool" where
  "numLe NaN c = False"
| "numLe PosInf c = False"
| "numLe NegInf c = True"
| "numLe (Num r) c = (r \<le> c)"

fun numGe :: "jsnum \<Rightarrow> rat \<Rightarrow> bool" where
  "numGe NaN c = False"
| "numGe PosInf c = True"
| "numGe NegInf c = False"
| "numGe (Num r) c = (r \<ge> c)"

text \<open>
  An object is its own properties in the order \<open>Object.keys\<close> lists them: the keys
  that are array indices first, ascending, then the other keys in insertion order.
\<close>

type_synonym obj = "(string \<times> jsval) list"

definition get :: "obj \<Rightarrow> string \<Rightarrow> jsval option" where
  "get ob k = map_of ob k"

definition isArrayIndex :: "string \<Rightarrow> bool" where
  "isArrayIndex k =
     (k \<noteq> [] \<and> (\<forall>c \<in> set k. isDigit c) \<and> (k = ''0'' \<or> hd k \<noteq> CHR ''0'')
      \<and> digitsVal k < 2 ^ 32 - 1)"

fun insertIndex :: "string \<Rightarrow> jsval \<Rightarrow> obj \<Rightarrow> obj" where
  "insertIndex k v [] = [(k, v)]"
| "insertIndex k v ((k', v') # rest) =
     (if isArrayIndex k' \<and> digitsVal k' < digitsVal k
      then (k', v') # insertIndex k v rest
      else (k, v) # (k', v') # rest)"

fun replaceKey :: "string \<Rightarrow> jsval \<Rightarrow> obj \<Rightarrow> obj" where
  "replaceKey k v [] = []"
| "replaceKey k v ((k', v') # rest) =
     (if k' = k then (k, v) # rest else (k', v') # replaceKey k v rest)"

definition put :: "obj \<Rightarrow> string \<Rightarrow> jsval \<Rightarrow> obj" where
  "put ob k v =
     (if k \<in> fst ` set ob then replaceKey k v ob
      else if isArrayIndex k then insertIndex k v ob
      else ob @ [(k, v)])"


section \<open>The CSV parser (\<open>js/csvParser.js\<close>)\<close>

datatype jserror = Error string | TypeError string

text \<open>The fields of \<open>CSVParser\<close>.\<close>

record parserState =
  rawData :: "obj list"
  parsedData :: "obj list"
  errors :: "string list"

definition dquote :: char where
  "dquote = CHR 0x22"

definition newline :: char where
  "newline = CHR 0x0A"

text \<open>
  \<open>parseCSVLine\<close>: the loop over the characters of the line, with the loop variables
  \<open>values\<close>, \<open>current\<close> and \<open>inQuotes\<close>. A quote inside a quoted span followed by a
  second quote stands for one quote and skips it; any other quote toggles the span.
\<close>

fun parseCSVLine_loop :: "string \<Rightarrow> string list \<Rightarrow> string \<Rightarrow> bool \<Rightarrow> string list" where
  "parseCSVLine_loop [] values current inQuotes = values @ [trim current]"
| "parseCSVLine_loop [c] values current inQuotes =
     (if c = dquote then parseCSVLine_loop [] values current (\<not> inQuotes)
      else if c = CHR '','' \<and> \<not> inQuotes then parseCSVLine_loop [] (values @ [trim current]) [] inQuotes
      else parseCSVLine_loop [] values (current @ [c]) inQuotes)"
| "parseCSVLine_loop (c # nextChar # rest) values current inQuotes =
     (if c = dquote then
        (if inQuotes \<and> nextChar = dquote
         then parseCSVLine_loop rest values (current @ [dquote]) inQuotes
         else parseCSVLine_loop (nextChar # rest) values current (\<not> inQuotes))
      else if c = CHR '','' \<and> \<not> inQuotes
      then parseCSVLine_loop (nextChar # rest) (values @ [trim current]) [] inQuotes
      else parseCSVLine_loop (nextChar # rest) values (current @ [c]) inQuotes)"

definition parseCSVLine :: "string \<Rightarrow> string list" where
  "parseCSVLine line = parseCSVLine_loop line [] [] False"

text \<open>
  \<open>normalizeHeader\<close>: trim, lower case, every character outside \<open>[a-z0-9]\<close> to an
  underscore, runs of underscores to one, one underscore off each end, then the
  table of synonyms.
\<close>

definition isLowerAlnum :: "char \<Rightarrow> bool" where
  "isLowerAlnum c = ((97 \<le> (of_char c :: int) \<and> (of_char c :: int) \<le> 122) \<or> isDigit c)"

fun collapseUnderscores :: "string \<Rightarrow> string" where
  "collapseUnderscores (a # b # rest) =
     (if a = CHR ''_'' \<and> b = CHR ''_'' then collapseUnderscores (b # rest)
      else a # collapseUnderscores (b # rest))"
| "collapseUnderscores s = s"

text \<open>
  The replacements \<open>/^_|_$/g\<close> and \<open>/^"|"$/g\<close>: the character is removed once from the
  start when the text starts with it, and once from the end of what remains.
\<close>

definition stripEnds :: "char \<Rightarrow> string \<Rightarrow> string" where
  "stripEnds x s =
     (let s1 = (case s of [] \<Rightarrow> [] | c # r \<Rightarrow> if c = x then r else s)
      in if s1 \<noteq> [] \<and> last s1 = x then butlast s1 else s1)"

definition headerMap :: "(string \<times> string) list" where
  "headerMap =
     [(''student_id'', ''studentId''),
      (''id'', ''studentId''),
      (''studentid'', ''studentId''),
      (''name'', ''name''),
      (''student_name'', ''name''),
      (''full_name'', ''name''),
      (''subject'', ''subject''),
      (''course'', ''subject''),
      (''marks'', ''marks''),
      (''score'', ''marks''),
      (''grade'', ''marks''),
      (''attendance'', ''attendance''),
      (''attendance_percentage'', ''attendance''),
      (''semester'', ''semester''),
      (''term'', ''semester''),
      (''assessment_type'', ''assessmentType''),
      (''assessment'', ''assessmentType''),
      (''type'', ''assessmentType'')]"

text \<open>
  The table is an object literal, so the lookup of \<open>constructor\<close> finds the inherited
  property: the function \<open>Object\<close>, which as a property key is its source text. No other
  inherited name is in lower case without underscores at its ends.
\<close>

definition normalizeHeader :: "string \<Rightarrow> string" where
  "normalizeHeader header =
     (let normalized =
            stripEnds CHR ''_''
              (collapseUnderscores
                 (map (\<lambda>c. if isLowerAlnum c then c else CHR ''_'') (toLowerCase (trim header))))
      in case map_of headerMap normalized of
           Some canonical \<Rightarrow> canonical
         | None \<Rightarrow> if normalized = ''constructor''
                   then ''function Object() { [native code] }''
                   else normalized)"

text \<open>\<open>cleanValue\<close>: \<open>null\<close> for blank text, a number when \<open>parseFloat\<close> finds a finite one.\<close>

definition cleanValue :: "string \<Rightarrow> jsval" where
  "cleanValue value0 =
     (if value0 = [] \<or> trim value0 = [] then JNull
      else (let v = stripEnds dquote value0
            in case parseFloat v of
                 Num numValue \<Rightarrow> JNum numValue
               | _ \<Rightarrow> JStr (trim v)))"

text \<open>\<open>Math.max(0, Math.min(100, x))\<close>, after \<open>NaN\<close> has been replaced by 0.\<close>

fun clampPercent :: "jsnum \<Rightarrow> rat" where
  "clampPercent NaN = 0"
| "clampPercent PosInf = 100"
| "clampPercent NegInf = 0"
| "clampPercent (Num r) = max 0 (min 100 r)"

text \<open>The normalisation of \<open>row.marks\<close> and of \<open>row.attendance\<close>.\<close>

definition normalizePercent :: "obj \<Rightarrow> string \<Rightarrow> obj" where
  "normalizePercent row k =
     (case get row k of
        None \<Rightarrow> put row k (JNum 0)
      | Some JNull \<Rightarrow> put row k (JNum 0)
      | Some v \<Rightarrow> put row k (JNum (clampPercent (parseFloat (toStr (Some v))))))"

definition defaultTo :: "obj \<Rightarrow> string \<Rightarrow> jsval \<Rightarrow> obj" where
  "defaultTo row k v = (if \<not> truthy (get row k) then put row k v else row)"

text \<open>
  \<open>validateAndTransformRow\<close>; \<open>now\<close> is the reading of \<open>Date.now()\<close> for this row. A
  rejected row returns \<open>None\<close> (\<open>null\<close>) and leaves its message in \<open>errors\<close>.
\<close>

definition validateAndTransformRow ::
  "parserState \<Rightarrow> obj \<Rightarrow> nat \<Rightarrow> int \<Rightarrow> parserState \<times> obj option" where
  "validateAndTransformRow p row rowNumber now =
     (if \<not> truthy (get row ''studentId'') \<and> \<not> truthy (get row ''name'')
      then (p\<lparr>errors := errors p @
                 [''Row '' @ numToString (of_nat rowNumber) @ '': Missing student ID or name'']\<rparr>,
            None)
      else
        (let row1 = defaultTo row ''studentId''
                      (JStr (''STU-'' @ numToString (of_nat rowNumber)));
             row2 = defaultTo row1 ''name''
                      (JStr (''Student '' @ toStr (get row1 ''studentId'')));
             row3 = normalizePercent row2 ''marks'';
             row4 = normalizePercent row3 ''attendance'';
             row5 = defaultTo row4 ''subject'' (JStr ''General'');
             row6 = defaultTo row5 ''semester'' (JStr ''1'');
             row7 = defaultTo row6 ''assessmentType'' (JStr ''Exam'');
             row8 = put row7 ''rowId''
                      (JStr (toStr (get row7 ''studentId'') @ ''-'' @ toStr (get row7 ''subject'')
                             @ ''-'' @ toStr (get row7 ''semester'') @ ''-''
                             @ numToString (of_int now)))
         in (p, Some row8)))"

text \<open>The row object built from the headers and the cells of one line.\<close>

definition buildRow :: "string list \<Rightarrow> string list \<Rightarrow> obj" where
  "buildRow hs vs = foldl (\<lambda>row (header, v). put row header (cleanValue v)) [] (zip hs vs)"

text \<open>
  The loop of \<open>parseCSV\<close> over the data lines, from index \<open>i\<close>: the state carries
  \<open>errors\<close>, \<open>data\<close> is the local array. Nothing in the body throws, so the
  \<open>catch\<close> clause has no branch here.
\<close>

fun parseRows ::
  "string list \<Rightarrow> (nat \<Rightarrow> int) \<Rightarrow> nat \<Rightarrow> string list \<Rightarrow> parserState \<Rightarrow> obj list
     \<Rightarrow> parserState \<times> obj list" where
  "parseRows hs clock i [] p data = (p, data)"
| "parseRows hs clock i (line # rest) p data =
     (let values = parseCSVLine line
      in if length values \<noteq> length hs
         then parseRows hs clock (i + 1) rest
                (p\<lparr>errors := errors p @
                     [''Row '' @ numToString (of_nat (i + 1)) @ '': Column count mismatch'']\<rparr>)
                data
         else (case validateAndTransformRow p (buildRow hs values) (i + 1) (clock (i + 1)) of
                 (p', Some validatedRow) \<Rightarrow> parseRows hs clock (i + 1) rest p' (data @ [validatedRow])
               | (p', None) \<Rightarrow> parseRows hs clock (i + 1) rest p' data))"

definition nonBlankLines :: "string \<Rightarrow> string list" where
  "nonBlankLines csv = filter (\<lambda>line. trim line \<noteq> []) (splitOn newline csv)"

text \<open>
  \<open>parseCSV\<close>; \<open>clock\<close> gives the reading of \<open>Date.now()\<close> at each row number. The
  result is the parser afterwards and either the thrown error or the returned array.
\<close>

definition parseCSV ::
  "parserState \<Rightarrow> (nat \<Rightarrow> int) \<Rightarrow> string \<Rightarrow> parserState \<times> (jserror + obj list)" where
  "parseCSV p clock csv =
     (let lines = nonBlankLines csv
      in if length lines < 2
         then (p, Inl (Error ''CSV must have at least a header row and one data row''))
         else
           (let normalizedHeaders = map normalizeHeader (parseCSVLine (hd lines));
                (p', data) = parseRows normalizedHeaders clock 1 (tl lines) (p\<lparr>errors := []\<rparr>) []
            in if length (errors p') > 0 \<and> length data = 0
               then (p', Inl (Error (''Failed to parse CSV: '' @ joinWith ''; '' (errors p'))))
               else (p', Inr data)))"


definition newParser :: parserState where
  "newParser = \<lparr>rawData = [], parsedData = [], errors = []\<rparr>"

section \<open>The risk engine (\<open>js/riskDetection.js\<close>)\<close>

text \<open>\<open>v || 0\<close>, and the two readings the rules take of a student.\<close>

definition orZero :: "jsval option \<Rightarrow> jsval" where
  "orZero v = (case v of None \<Rightarrow> JNum 0 | Some x \<Rightarrow> if truthy v then x else JNum 0)"

text \<open>\<open>v || ''\<close>.\<close>

definition orEmpty :: "jsval option \<Rightarrow> jsval" where
  "orEmpty v = (case v of None \<Rightarrow> JStr [] | Some x \<Rightarrow> if truthy v then x else JStr [])"

definition marksOf :: "obj \<Rightarrow> jsnum" where
  "marksOf student = toNumber (Some (orZero (get student ''marks'')))"

definition attendanceOf :: "obj \<Rightarrow> jsnum" where
  "attendanceOf student = toNumber (Some (orZero (get student ''attendance'')))"

record rule =
  name :: string
  weight :: rat
  check :: "obj \<Rightarrow> bool"

definition rules :: "rule list" where
  "rules =
     [\<lparr>name = ''Low Score'', weight = 4 / 10,
       check = (\<lambda>student. numLt (marksOf student) 40)\<rparr>,
      \<lparr>name = ''Very Low Score'', weight = 6 / 10,
       check = (\<lambda>student. numLt (marksOf student) 30)\<rparr>,
      \<lparr>name = ''Low Attendance'', weight = 3 / 10,
       check = (\<lambda>student. numLt (attendanceOf student) 60)\<rparr>,
      \<lparr>name = ''Very Low Attendance'', weight = 5 / 10,
       check = (\<lambda>student. numLt (attendanceOf student) 50)\<rparr>,
      \<lparr>name = ''Combined Risk'', weight = 7 / 10,
       check = (\<lambda>student. numLt (marksOf student) 50 \<and> numLt (attendanceOf student) 70)\<rparr>,
      \<lparr>name = ''Critical Risk'', weight = 9 / 10,
       check = (\<lambda>student. numLt (marksOf student) 35 \<and> numLt (attendanceOf student) 60)\<rparr>]"

definition calculateRiskScore :: "obj \<Rightarrow> rat" where
  "calculateRiskScore student =
     min 1 (foldl (\<lambda>riskScore r. if check r student then riskScore + weight r else riskScore)
              0 rules)"

definition getRiskLevel :: "rat \<Rightarrow> string" where
  "getRiskLevel riskScore =
     (if riskScore \<ge> 7 / 10 then ''high''
      else if riskScore \<ge> 4 / 10 then ''medium''
      else if riskScore \<ge> 2 / 10 then ''low''
      else ''none'')"

definition getRiskFactors :: "obj \<Rightarrow> string list" where
  "getRiskFactors student =
     (let marks = marksOf student;
          attendance = attendanceOf student
      in (if numLt marks 30 then [''Very low score (<30%)'']
          else if numLt marks 40 then [''Low score (<40%)'']
          else if numLt marks 50 then [''Below passing threshold'']
          else [])
         @ (if numLt attendance 50 then [''Very low attendance (<50%)'']
            else if numLt attendance 60 then [''Low attendance (<60%)'']
            else if numLt attendance 70 then [''Below recommended attendance'']
            else [])
         @ (if numLt marks 50 \<and> numLt attendance 70 then [''Combined low performance'']
            else []))"

text \<open>\<open>Math.round\<close>: the nearest integer, a half going up.\<close>

definition mathRound :: "rat \<Rightarrow> int" where
  "mathRound x = \<lfloor>x + 1 / 2\<rfloor>"

record assessment =
  riskScore :: int
  riskLevel :: string
  factors :: "string list"

definition assessStudent :: "obj \<Rightarrow> assessment" where
  "assessStudent student =
     (let score = calculateRiskScore student
      in \<lparr>riskScore = mathRound (score * 100),
          riskLevel = getRiskLevel score,
          factors = getRiskFactors student\<rparr>)"

text \<open>The object spread copies the student, then the three properties are set.\<close>

definition assessAllStudents :: "obj list \<Rightarrow> obj list" where
  "assessAllStudents students =
     map (\<lambda>student.
            let a = assessStudent student
            in put (put (put student ''riskScore'' (JNum (of_int (riskScore a))))
                      ''riskLevel'' (JStr (riskLevel a)))
                 ''riskFactors'' (JArr (factors a)))
         students"

section \<open>The analytics engine (\<open>js/analytics.js\<close>)\<close>

text \<open>
  The methods below read \<open>this.data\<close> only, which is their argument here.
  \<open>calculatePercentage\<close> is the helper of \<open>js/utils.js\<close>.
\<close>

definition calculatePercentage :: "rat \<Rightarrow> rat \<Rightarrow> rat" where
  "calculatePercentage part tot = (if tot = 0 then 0 else (part / tot) * 100)"

definition getPassRate :: "obj list \<Rightarrow> rat" where
  "getPassRate data =
     (if length data = 0 then 0
      else (let passingThreshold = 50;
                passed = length (filter (\<lambda>d. numGe (marksOf d) passingThreshold) data)
            in calculatePercentage (of_nat passed) (of_nat (length data))))"


text \<open>The histogram object: its five keys in the order of the literal, each with its count.\<close>

type_synonym ranges = "(string \<times> nat) list"

definition increment :: "ranges \<Rightarrow> string \<Rightarrow> ranges" where
  "increment rs k = map (\<lambda>(k', n). if k' = k then (k', n + 1) else (k', n)) rs"

definition scoreBand :: "obj \<Rightarrow> string" where
  "scoreBand d =
     (let score = marksOf d
      in if numLe score 20 then ''0-20''
         else if numLe score 40 then ''21-40''
         else if numLe score 60 then ''41-60''
         else if numLe score 80 then ''61-80''
         else ''81-100'')"

definition getScoreDistribution :: "obj list \<Rightarrow> ranges" where
  "getScoreDistribution data =
     foldl (\<lambda>rs d. increment rs (scoreBand d))
       [(''0-20'', 0), (''21-40'', 0), (''41-60'', 0), (''61-80'', 0), (''81-100'', 0)]
       data"

section \<open>The filter and sort engine (\<open>js/filters.js\<close>)\<close>

text \<open>
  The fields of \<open>FilterEngine\<close>. The four filter values are named \<open>search\<close>,
  \<open>subject\<close>, \<open>semester\<close> and \<open>riskLevel\<close> in the source; the record fields carry the
  suffix \<open>F\<close>. The sort direction is absent when \<open>setSort\<close> is given a key without a
  hyphen.
\<close>

record filters =
  searchF :: string
  subjectF :: string
  semesterF :: string
  riskLevelF :: string

record sortState =
  key :: string
  direction :: "string option"

record filterEngine =
  originalData :: "obj list"
  filteredData :: "obj list"
  currentFilters :: filters
  currentSort :: sortState

definition defaultFilters :: filters where
  "defaultFilters = \<lparr>searchF = [], subjectF = [], semesterF = [], riskLevelF = []\<rparr>"

definition defaultSort :: sortState where
  "defaultSort = \<lparr>key = ''name'', direction = Some ''asc''\<rparr>"

definition newFilterEngine :: filterEngine where
  "newFilterEngine =
     \<lparr>originalData = [], filteredData = [],
      currentFilters = defaultFilters, currentSort = defaultSort\<rparr>"

text \<open>
  \<open>item.f && item.f.toLowerCase().includes(searchLower)\<close>: a falsy field does not
  match; a string is searched; any other truthy value has no method \<open>toLowerCase\<close>,
  and the call throws.
\<close>

definition fieldIncludes :: "obj \<Rightarrow> string \<Rightarrow> string \<Rightarrow> jserror + bool" where
  "fieldIncludes item f searchLower =
     (if \<not> truthy (get item f) then Inr False
      else (case get item f of
              Some (JStr s) \<Rightarrow> Inr (includesStr (toLowerCase s) searchLower)
            | _ \<Rightarrow> Inl (TypeError (''item.'' @ f @ ''.toLowerCase is not a function''))))"

text \<open>The three alternatives of the search predicate, left to right, stopping at the first match.\<close>

definition matchesSearch :: "string \<Rightarrow> obj \<Rightarrow> jserror + bool" where
  "matchesSearch searchLower item =
     (case fieldIncludes item ''name'' searchLower of
        Inl e \<Rightarrow> Inl e
      | Inr True \<Rightarrow> Inr True
      | Inr False \<Rightarrow>
          (case fieldIncludes item ''studentId'' searchLower of
             Inl e \<Rightarrow> Inl e
           | Inr True \<Rightarrow> Inr True
           | Inr False \<Rightarrow> fieldIncludes item ''subject'' searchLower))"

text \<open>\<open>Array.prototype.filter\<close> with a callback that may throw.\<close>

fun filterE :: "('a \<Rightarrow> jserror + bool) \<Rightarrow> 'a list \<Rightarrow> jserror + 'a list" where
  "filterE f [] = Inr []"
| "filterE f (x # xs) =
     (case f x of
        Inl e \<Rightarrow> Inl e
      | Inr b \<Rightarrow> (case filterE f xs of
                    Inl e \<Rightarrow> Inl e
                  | Inr ys \<Rightarrow> Inr (if b then x # ys else ys)))"

text \<open>
  The comparator of \<open>sortData\<close>. \<open>localeCompare\<close> is the collation of the host, a
  parameter \<open>lc\<close>. The result is the sign the sort looks at, \<open>NaN\<close> counting as 0.
\<close>

fun numSub :: "jsnum \<Rightarrow> jsnum \<Rightarrow> jsnum" where
  "numSub (Num a) (Num b) = Num (a - b)"
| "numSub NaN y = NaN"
| "numSub x NaN = NaN"
| "numSub PosInf PosInf = NaN"
| "numSub NegInf NegInf = NaN"
| "numSub PosInf y = PosInf"
| "numSub NegInf y = NegInf"
| "numSub x PosInf = NegInf"
| "numSub x NegInf = PosInf"

fun signOf :: "jsnum \<Rightarrow> int" where
  "signOf NaN = 0"
| "signOf PosInf = 1"
| "signOf NegInf = - 1"
| "signOf (Num r) = (if r < 0 then - 1 else if r = 0 then 0 else 1)"

definition sortValue :: "string \<Rightarrow> obj \<Rightarrow> jserror + jsval" where
  "sortValue k a =
     (if k = ''name'' then
        (case orEmpty (get a ''name'') of
           JStr s \<Rightarrow> Inr (JStr (toLowerCase s))
         | _ \<Rightarrow> Inl (TypeError ''a.name.toLowerCase is not a function''))
      else if k = ''score'' then Inr (orZero (get a ''marks''))
      else if k = ''attendance'' then Inr (orZero (get a ''attendance''))
      else Inr (orEmpty (get a k)))"

definition compareValues ::
  "(string \<Rightarrow> string \<Rightarrow> int) \<Rightarrow> string option \<Rightarrow> jsval \<Rightarrow> jsval \<Rightarrow> jserror + int" where
  "compareValues lc dir aVal bVal =
     (case aVal of
        JStr sa \<Rightarrow>
          (if dir = Some ''asc'' then Inr (lc sa (toStr (Some bVal)))
           else (case bVal of
                   JStr sb \<Rightarrow> Inr (lc sb sa)
                 | _ \<Rightarrow> Inl (TypeError ''bVal.localeCompare is not a function'')))
      | _ \<Rightarrow>
          (if dir = Some ''asc''
           then Inr (signOf (numSub (toNumber (Some aVal)) (toNumber (Some bVal))))
           else Inr (signOf (numSub (toNumber (Some bVal)) (toNumber (Some aVal))))))"

definition comparator ::
  "(string \<Rightarrow> string \<Rightarrow> int) \<Rightarrow> sortState \<Rightarrow> obj \<Rightarrow> obj \<Rightarrow> jserror + int" where
  "comparator lc srt a b =
     (case sortValue (key srt) a of
        Inl e \<Rightarrow> Inl e
      | Inr aVal \<Rightarrow>
          (case sortValue (key srt) b of
             Inl e \<Rightarrow> Inl e
           | Inr bVal \<Rightarrow> compareValues lc (direction srt) aVal bVal))"

text \<open>
  \<open>Array.prototype.sort\<close> is stable; the order in which the host calls the comparator is
  its own. The model inserts from the right, each element before the first one it does
  not come after, and stops at the first call that throws. An array of fewer than two
  elements is returned without a call.
\<close>

fun insertSorted :: "('a \<Rightarrow> 'a \<Rightarrow> jserror + int) \<Rightarrow> 'a \<Rightarrow> 'a list \<Rightarrow> jserror + 'a list" where
  "insertSorted cmp x [] = Inr [x]"
| "insertSorted cmp x (y # ys) =
     (case cmp x y of
        Inl e \<Rightarrow> Inl e
      | Inr c \<Rightarrow> if c \<le> 0 then Inr (x # y # ys)
                 else (case insertSorted cmp x ys of
                         Inl e \<Rightarrow> Inl e
                       | Inr zs \<Rightarrow> Inr (y # zs)))"

fun sortWith :: "('a \<Rightarrow> 'a \<Rightarrow> jserror + int) \<Rightarrow> 'a list \<Rightarrow> jserror + 'a list" where
  "sortWith cmp [] = Inr []"
| "sortWith cmp (x # xs) =
     (case sortWith cmp xs of
        Inl e \<Rightarrow> Inl e
      | Inr ys \<Rightarrow> insertSorted cmp x ys)"

definition sortData ::
  "(string \<Rightarrow> string \<Rightarrow> int) \<Rightarrow> filterEngine \<Rightarrow> obj list \<Rightarrow> jserror + obj list" where
  "sortData lc fe data = sortWith (comparator lc (currentSort fe)) data"

text \<open>
  \<open>applyFilters\<close>: each filter runs when its value is not empty; the last three compare
  with \<open>===\<close>, so a field that is not a string equals no filter value. A throw leaves
  \<open>filteredData\<close> as it was.
\<close>

definition strictEq :: "jsval option \<Rightarrow> string \<Rightarrow> bool" where
  "strictEq v s = (v = Some (JStr s))"

definition applyFilters ::
  "(string \<Rightarrow> string \<Rightarrow> int) \<Rightarrow> filterEngine \<Rightarrow> jserror + filterEngine" where
  "applyFilters lc fe =
     (let f = currentFilters fe
      in case (if searchF f \<noteq> [] then filterE (matchesSearch (searchF f)) (originalData fe)
               else Inr (originalData fe)) of
           Inl e \<Rightarrow> Inl e
         | Inr filtered1 \<Rightarrow>
             (let filtered2 = (if subjectF f \<noteq> []
                               then filter (\<lambda>item. strictEq (get item ''subject'') (subjectF f)) filtered1
                               else filtered1);
                  filtered3 = (if semesterF f \<noteq> []
                               then filter (\<lambda>item. strictEq (get item ''semester'') (semesterF f)) filtered2
                               else filtered2);
                  filtered4 = (if riskLevelF f \<noteq> []
                               then filter (\<lambda>item. strictEq (get item ''riskLevel'') (riskLevelF f)) filtered3
                               else filtered3)
              in case sortData lc fe filtered4 of
                   Inl e \<Rightarrow> Inl e
                 | Inr sortedData \<Rightarrow> Inr (fe\<lparr>filteredData := sortedData\<rparr>)))"

text \<open>
  The setters assign their part of the state and call \<open>applyFilters\<close>. When that call
  throws, the assignment has happened all the same: the result is the engine as the throw
  leaves it, and the error if there was one.
\<close>

definition rederive ::
  "(string \<Rightarrow> string \<Rightarrow> int) \<Rightarrow> filterEngine \<Rightarrow> filterEngine \<times> jserror option" where
  "rederive lc fe = (case applyFilters lc fe of Inl e \<Rightarrow> (fe, Some e) | Inr fe' \<Rightarrow> (fe', None))"

definition setData ::
  "(string \<Rightarrow> string \<Rightarrow> int) \<Rightarrow> obj list \<Rightarrow> filterEngine \<Rightarrow> filterEngine \<times> jserror option" where
  "setData lc data fe = rederive lc (fe\<lparr>originalData := data\<rparr>)"

definition setSearch ::
  "(string \<Rightarrow> string \<Rightarrow> int) \<Rightarrow> string \<Rightarrow> filterEngine \<Rightarrow> filterEngine \<times> jserror option" where
  "setSearch lc query fe =
     rederive lc (fe\<lparr>currentFilters := (currentFilters fe)\<lparr>searchF := trim (toLowerCase query)\<rparr>\<rparr>)"

definition setSubjectFilter ::
  "(string \<Rightarrow> string \<Rightarrow> int) \<Rightarrow> string \<Rightarrow> filterEngine \<Rightarrow> filterEngine \<times> jserror option" where
  "setSubjectFilter lc s fe =
     rederive lc (fe\<lparr>currentFilters := (currentFilters fe)\<lparr>subjectF := s\<rparr>\<rparr>)"

definition setSemesterFilter ::
  "(string \<Rightarrow> string \<Rightarrow> int) \<Rightarrow> string \<Rightarrow> filterEngine \<Rightarrow> filterEngine \<times> jserror option" where
  "setSemesterFilter lc s fe =
     rederive lc (fe\<lparr>currentFilters := (currentFilters fe)\<lparr>semesterF := s\<rparr>\<rparr>)"

definition setRiskFilter ::
  "(string \<Rightarrow> string \<Rightarrow> int) \<Rightarrow> string \<Rightarrow> filterEngine \<Rightarrow> filterEngine \<times> jserror option" where
  "setRiskFilter lc s fe =
     rederive lc (fe\<lparr>currentFilters := (currentFilters fe)\<lparr>riskLevelF := s\<rparr>\<rparr>)"

definition setSort ::
  "(string \<Rightarrow> string \<Rightarrow> int) \<Rightarrow> string \<Rightarrow> filterEngine \<Rightarrow> filterEngine \<times> jserror option" where
  "setSort lc sortKey fe =
     (let parts = splitOn CHR ''-'' sortKey
      in rederive lc
           (fe\<lparr>currentSort :=
                 (case parts of
                    [] \<Rightarrow> currentSort fe
                  | k # [] \<Rightarrow> \<lparr>key = k, direction = None\<rparr>
                  | k # d # _ \<Rightarrow> \<lparr>key = k, direction = Some d\<rparr>)\<rparr>))"

definition clearFilters ::
  "(string \<Rightarrow> string \<Rightarrow> int) \<Rightarrow> filterEngine \<Rightarrow> filterEngine \<times> jserror option" where
  "clearFilters lc fe =
     rederive lc (fe\<lparr>currentFilters := defaultFilters, currentSort := defaultSort\<rparr>)"

definition getFilteredData :: "filterEngine \<Rightarrow> obj list" where
  "getFilteredData fe = filteredData fe"

section \<open>The export serializer (\<open>downloadCSV\<close> of \<open>js/utils.js\<close>)\<close>



section \<open>Notions used in the statements\<close>

text \<open>
  The two conditions under which the loop of \<open>parseCSV\<close> keeps a data line: the cell
  count equals the header count, and the row has a truthy \<open>studentId\<close> or \<open>name\<close>.
\<close>

definition rowAccepted :: "string list \<Rightarrow> string \<Rightarrow> bool" where
  "rowAccepted hs line =
     (let values = parseCSVLine line;
          row = buildRow hs values
      in length values = length hs
         \<and> (truthy (get row ''studentId'') \<or> truthy (get row ''name'')))"



text \<open>
  The record of a numbered data line, if the line is accepted, and the records of all
  accepted data lines of a text in their order; the first data line has the number 2.
\<close>

definition acceptedRecord :: "string list \<Rightarrow> (nat \<Rightarrow> int) \<Rightarrow> nat \<times> string \<Rightarrow> obj option" where
  "acceptedRecord hs clock numbered =
     (let rowNumber = fst numbered;
          values = parseCSVLine (snd numbered)
      in if length values \<noteq> length hs then None
         else snd (validateAndTransformRow newParser (buildRow hs values) rowNumber
                     (clock rowNumber)))"



text \<open>
  Record \<open>a\<close> is not above record \<open>b\<close> in the property \<open>k\<close>: both hold the same
  value, whatever it is, or both hold numbers and that of \<open>a\<close> is the smaller or equal one.
\<close>

definition notAbove :: "obj \<Rightarrow> obj \<Rightarrow> string \<Rightarrow> bool" where
  "notAbove a b k =
     (get a k = get b k
      \<or> (case (get a k, get b k) of
            (Some (JNum x), Some (JNum y)) \<Rightarrow> x \<le> y
          | _ \<Rightarrow> False))"

text \<open>A rule's weight when it fires.\<close>

definition indicator :: "bool \<Rightarrow> rat \<Rightarrow> rat" where
  "indicator c w = (if c then w else 0)"

text \<open>The labels of the histogram, and the number of records of a band.\<close>

definition bandLabels :: "string list" where
  "bandLabels = [''0-20'', ''21-40'', ''41-60'', ''61-80'', ''81-100'']"

definition countIn :: "string \<Rightarrow> obj list \<Rightarrow> nat" where
  "countIn l data = length (filter (\<lambda>d. scoreBand d = l) data)"

text \<open>
  The property \<open>k\<close> of the record is a string or is falsy: the values on which the
  string methods of the filter engine are either available or never called.
\<close>

definition textOrFalsy :: "obj \<Rightarrow> string \<Rightarrow> bool" where
  "textOrFalsy r k = (case get r k of Some (JStr s) \<Rightarrow> True | v \<Rightarrow> \<not> truthy v)"

text \<open>The property \<open>f\<close> is a non-empty string whose lower case contains \<open>q\<close>.\<close>

definition fieldHas :: "obj \<Rightarrow> string \<Rightarrow> string \<Rightarrow> bool" where
  "fieldHas item f q =
     (case get item f of
        Some (JStr s) \<Rightarrow> s \<noteq> [] \<and> includesStr (toLowerCase s) q
      | _ \<Rightarrow> False)"

text \<open>
  The comparator puts \<open>a\<close> before or level with \<open>b\<close>: it returns, and what it returns is
  not positive.
\<close>

definition comesFirst :: "('a \<Rightarrow> 'a \<Rightarrow> jserror + int) \<Rightarrow> 'a \<Rightarrow> 'a \<Rightarrow> bool" where
  "comesFirst cmp a b = (case cmp a b of Inr c \<Rightarrow> c \<le> 0 | Inl e \<Rightarrow> False)"

section \<open>Properties of objects\<close>

lemma map_of_replaceKey:
  "k \<in> fst ` set ob \<Longrightarrow>
   map_of (replaceKey k v ob) k' = (if k' = k then Some v else map_of ob k')"
  by (induction ob) force+

lemma map_of_insertIndex:
  "k \<notin> fst ` set ob \<Longrightarrow>
   map_of (insertIndex k v ob) k' = (if k' = k then Some v else map_of ob k')"
  by (induction ob) auto

lemma get_put: "get (put ob k v) k' = (if k' = k then Some v else get ob k')"
proof -
  have "k \<notin> fst ` set ob \<Longrightarrow> map_of ob k = None"
    by (simp add: map_of_eq_None_iff)
  then show ?thesis
    by (auto simp: get_def put_def map_of_replaceKey map_of_insertIndex map_add_def
             split: option.splits)
qed

lemma get_defaultTo_other: "k' \<noteq> k \<Longrightarrow> get (defaultTo row k v) k' = get row k'"
  by (simp add: defaultTo_def get_put)

lemma marksOf_num: "get s ''marks'' = Some (JNum m) \<Longrightarrow> marksOf s = Num m"
  by (simp add: marksOf_def orZero_def)

lemma attendanceOf_num: "get s ''attendance'' = Some (JNum m) \<Longrightarrow> attendanceOf s = Num m"
  by (simp add: attendanceOf_def orZero_def)

section \<open>The parser keeps marks and attendance in range\<close>









text \<open>
  What a validated row holds in the two properties: 0 when the property is absent or
  \<open>null\<close>, otherwise what \<open>parseFloat\<close> reads in it, with \<open>NaN\<close> counted as 0, brought
  into the range from 0 to 100.
\<close>

lemma get_normalizePercent_other:
  "k' \<noteq> k \<Longrightarrow> get (normalizePercent row k) k' = get row k'"
  by (auto simp: normalizePercent_def get_put split: option.splits jsval.splits)

lemma get_normalizePercent_same:
  "get (normalizePercent row k) k
     = Some (JNum (case get row k of
                     None \<Rightarrow> 0
                   | Some JNull \<Rightarrow> 0
                   | Some v \<Rightarrow> clampPercent (parseFloat (toStr (Some v)))))"
  by (auto simp: normalizePercent_def get_put split: option.splits jsval.splits)

lemma validate_marks_value:
  assumes "validateAndTransformRow p row n now = (p', Some r)"
  shows "get r ''marks''
           = Some (JNum (case get row ''marks'' of
                           None \<Rightarrow> 0
                         | Some JNull \<Rightarrow> 0
                         | Some v \<Rightarrow> clampPercent (parseFloat (toStr (Some v)))))"
    and "get r ''attendance''
           = Some (JNum (case get row ''attendance'' of
                           None \<Rightarrow> 0
                         | Some JNull \<Rightarrow> 0
                         | Some v \<Rightarrow> clampPercent (parseFloat (toStr (Some v)))))"
proof -
  define row2 where
    "row2 = defaultTo (defaultTo row ''studentId'' (JStr (''STU-'' @ numToString (of_nat n))))
              ''name''
              (JStr (''Student '' @ toStr (get (defaultTo row ''studentId''
                                                  (JStr (''STU-'' @ numToString (of_nat n))))
                                             ''studentId'')))"
  define row4 where "row4 = normalizePercent (normalizePercent row2 ''marks'') ''attendance''"
  define row7 where
    "row7 = defaultTo (defaultTo (defaultTo row4 ''subject'' (JStr ''General''))
                         ''semester'' (JStr ''1''))
              ''assessmentType'' (JStr ''Exam'')"
  from assms obtain v where r: "r = put row7 ''rowId'' v"
    by (auto simp: validateAndTransformRow_def Let_def row2_def row4_def row7_def
             split: if_splits)
  have m2: "get row2 ''marks'' = get row ''marks''"
    and a2: "get row2 ''attendance'' = get row ''attendance''"
    by (simp_all add: row2_def get_defaultTo_other)
  have "get r ''marks'' = get row4 ''marks''"
    by (simp add: r row7_def get_put get_defaultTo_other)
  also have "\<dots> = get (normalizePercent row2 ''marks'') ''marks''"
    by (simp add: row4_def get_normalizePercent_other)
  finally show "get r ''marks''
           = Some (JNum (case get row ''marks'' of
                           None \<Rightarrow> 0
                         | Some JNull \<Rightarrow> 0
                         | Some v \<Rightarrow> clampPercent (parseFloat (toStr (Some v)))))"
    by (simp only: get_normalizePercent_same m2)
  have "get r ''attendance'' = get row4 ''attendance''"
    by (simp add: r row7_def get_put get_defaultTo_other)
  also have "\<dots> = Some (JNum (case get (normalizePercent row2 ''marks'') ''attendance'' of
                           None \<Rightarrow> 0
                         | Some JNull \<Rightarrow> 0
                         | Some v \<Rightarrow> clampPercent (parseFloat (toStr (Some v)))))"
    by (simp only: row4_def get_normalizePercent_same)
  finally show "get r ''attendance''
           = Some (JNum (case get row ''attendance'' of
                           None \<Rightarrow> 0
                         | Some JNull \<Rightarrow> 0
                         | Some v \<Rightarrow> clampPercent (parseFloat (toStr (Some v)))))"
    by (simp add: get_normalizePercent_other a2)
qed



section \<open>When the parser fails\<close>






lemma acceptedRecord_iff:
  "acceptedRecord hs clock (n, line) \<noteq> None \<longleftrightarrow> rowAccepted hs line"
  by (auto simp: acceptedRecord_def rowAccepted_def validateAndTransformRow_def Let_def)



section \<open>The risk score never falls when marks or attendance fall\<close>

lemma calculateRiskScore_sum:
  "calculateRiskScore s =
     min 1 (indicator (numLt (marksOf s) 40) (4 / 10)
            + indicator (numLt (marksOf s) 30) (6 / 10)
            + indicator (numLt (attendanceOf s) 60) (3 / 10)
            + indicator (numLt (attendanceOf s) 50) (5 / 10)
            + indicator (numLt (marksOf s) 50 \<and> numLt (attendanceOf s) 70) (7 / 10)
            + indicator (numLt (marksOf s) 35 \<and> numLt (attendanceOf s) 60) (9 / 10))"
  by (simp add: calculateRiskScore_def rules_def indicator_def)

lemma indicator_mono: "(c \<Longrightarrow> c') \<Longrightarrow> 0 \<le> w \<Longrightarrow> indicator c w \<le> indicator c' w"
  by (auto simp: indicator_def)

lemma calculateRiskScore_mono:
  assumes m: "\<And>c. numLt (marksOf b) c \<Longrightarrow> numLt (marksOf a) c"
    and t: "\<And>c. numLt (attendanceOf b) c \<Longrightarrow> numLt (attendanceOf a) c"
  shows "calculateRiskScore b \<le> calculateRiskScore a"
  unfolding calculateRiskScore_sum
  by (intro min.mono order_refl add_mono indicator_mono) (auto dest: m t)

lemma notAbove_marks:
  "notAbove a b ''marks'' \<Longrightarrow> numLt (marksOf b) c \<Longrightarrow> numLt (marksOf a) c"
  by (auto simp: notAbove_def marksOf_def orZero_def
           split: option.splits jsval.splits if_splits)

lemma notAbove_attendance:
  "notAbove a b ''attendance'' \<Longrightarrow> numLt (attendanceOf b) c \<Longrightarrow> numLt (attendanceOf a) c"
  by (auto simp: notAbove_def attendanceOf_def orZero_def
           split: option.splits jsval.splits if_splits)

text \<open>
  Claim C5. When record \<open>a\<close> is not above record \<open>b\<close> in marks and not above it in
  attendance, the risk score of \<open>a\<close> is at least that of \<open>b\<close>. This covers lower marks at
  the same attendance and lower attendance at the same marks, the other property being
  any value the two records share.
\<close>

theorem riskScore_monotone:
  assumes "notAbove a b ''marks''" and "notAbove a b ''attendance''"
  shows "riskScore (assessStudent b) \<le> riskScore (assessStudent a)"
proof -
  have "calculateRiskScore b \<le> calculateRiskScore a"
    using assms by (intro calculateRiskScore_mono) (auto dest: notAbove_marks notAbove_attendance)
  then show ?thesis
    by (simp add: assessStudent_def Let_def mathRound_def floor_mono)
qed

theorem riskScore_monotone_witness:
  "notAbove [(''marks'', JNum 45), (''attendance'', JNum 65)]
            [(''marks'', JNum 85), (''attendance'', JNum 65)] ''marks''
   \<and> notAbove [(''marks'', JNum 45), (''attendance'', JNum 65)]
              [(''marks'', JNum 85), (''attendance'', JNum 65)] ''attendance''
   \<and> riskScore (assessStudent [(''marks'', JNum 85), (''attendance'', JNum 65)])
       \<le> riskScore (assessStudent [(''marks'', JNum 45), (''attendance'', JNum 65)])
   \<and> notAbove [(''marks'', JNum 85), (''attendance'', JNum 55)]
              [(''marks'', JNum 85), (''attendance'', JNum 65)] ''marks''
   \<and> notAbove [(''marks'', JNum 85), (''attendance'', JNum 55)]
              [(''marks'', JNum 85), (''attendance'', JNum 65)] ''attendance''
   \<and> riskScore (assessStudent [(''marks'', JNum 85), (''attendance'', JNum 65)])
       \<le> riskScore (assessStudent [(''marks'', JNum 85), (''attendance'', JNum 55)])"
proof -
  let ?b = "[(''marks'', JNum 85), (''attendance'', JNum 65)]"
  let ?a1 = "[(''marks'', JNum 45), (''attendance'', JNum 65)]"
  let ?a2 = "[(''marks'', JNum 85), (''attendance'', JNum 55)]"
  have h1: "notAbove ?a1 ?b ''marks''" "notAbove ?a1 ?b ''attendance''"
    by (simp_all add: notAbove_def get_def)
  have h2: "notAbove ?a2 ?b ''marks''" "notAbove ?a2 ?b ''attendance''"
    by (simp_all add: notAbove_def get_def)
  from riskScore_monotone[OF h1] riskScore_monotone[OF h2] h1 h2 show ?thesis
    by blast
qed

section \<open>Pass rate and fail rate\<close>



section \<open>The score histogram\<close>

lemma increment_map:
  "increment (map (\<lambda>l. (l, c l)) ls) k = map (\<lambda>l. (l, if l = k then c l + 1 else c l)) ls"
  by (simp add: increment_def)

lemma foldl_increment:
  "foldl (\<lambda>rs d. increment rs (scoreBand d)) (map (\<lambda>l. (l, c l)) ls) data
     = map (\<lambda>l. (l, c l + countIn l data)) ls"
proof (induction data arbitrary: c)
  case Nil
  then show ?case by (simp add: countIn_def)
next
  case (Cons d ds)
  show ?case
    by (simp add: increment_map Cons.IH countIn_def)
qed

lemma getScoreDistribution_counts:
  "getScoreDistribution data = map (\<lambda>l. (l, countIn l data)) bandLabels"
proof -
  have "[(''0-20'', 0), (''21-40'', 0), (''41-60'', 0), (''61-80'', 0), (''81-100'', 0)]
          = map (\<lambda>l. (l, (\<lambda>_. 0::nat) l)) bandLabels"
    by (simp add: bandLabels_def)
  then show ?thesis
    unfolding getScoreDistribution_def by (simp only: foldl_increment) simp
qed

lemma scoreBand_label: "scoreBand d \<in> set bandLabels"
  by (simp add: scoreBand_def bandLabels_def Let_def)

lemma sum_countIn: "(\<Sum>l\<leftarrow>bandLabels. countIn l data) = length data"
proof (induction data)
  case Nil
  then show ?case by (simp add: countIn_def bandLabels_def)
next
  case (Cons d ds)
  have "(\<Sum>l\<leftarrow>bandLabels. countIn l (d # ds))
          = (\<Sum>l\<leftarrow>bandLabels. (if scoreBand d = l then 1 else 0) + countIn l ds)"
    by (intro arg_cong[where f = sum_list] map_cong) (auto simp: countIn_def)
  also have "\<dots> = (\<Sum>l\<leftarrow>bandLabels. (if scoreBand d = l then 1 else 0))
                    + (\<Sum>l\<leftarrow>bandLabels. countIn l ds)"
    by (simp add: sum_list_addf)
  also have "(\<Sum>l\<leftarrow>bandLabels. (if scoreBand d = l then 1 else 0)) = (1::nat)"
    using scoreBand_label[of d] by (auto simp: bandLabels_def)
  finally show ?case using Cons.IH by simp
qed

lemma scoreBand_num:
  "get d ''marks'' = Some (JNum m) \<Longrightarrow>
   scoreBand d = (if m \<le> 20 then ''0-20'' else if m \<le> 40 then ''21-40''
                  else if m \<le> 60 then ''41-60'' else if m \<le> 80 then ''61-80''
                  else ''81-100'')"
  by (simp add: scoreBand_def marksOf_num)

text \<open>
  Claim C8. The histogram holds, for each of the five labels, the number of records whose
  band it is; the five counts add up to the number of records, so every record is counted
  once; one more record adds one to its own band and nothing else. The band of a record
  with numeric marks is decided by upper bounds that include the bound: marks of exactly
  20 are in \<open>0-20\<close>, marks of exactly 40 in \<open>21-40\<close>.
\<close>

theorem scoreDistribution_bands:
  "getScoreDistribution data = map (\<lambda>l. (l, countIn l data)) bandLabels
   \<and> sum_list (map snd (getScoreDistribution data)) = length data
   \<and> getScoreDistribution (data @ [d]) = increment (getScoreDistribution data) (scoreBand d)
   \<and> (get d ''marks'' = Some (JNum m) \<longrightarrow>
        scoreBand d = (if m \<le> 20 then ''0-20'' else if m \<le> 40 then ''21-40''
                       else if m \<le> 60 then ''41-60'' else if m \<le> 80 then ''61-80''
                       else ''81-100''))
   \<and> (get d ''marks'' = Some (JNum 20) \<longrightarrow>
        scoreBand d = ''0-20'' \<and> scoreBand d \<noteq> ''21-40'')
   \<and> (get d ''marks'' = Some (JNum 40) \<longrightarrow>
        scoreBand d = ''21-40'' \<and> scoreBand d \<noteq> ''41-60'')"
proof -
  have "sum_list (map snd (getScoreDistribution data)) = (\<Sum>l\<leftarrow>bandLabels. countIn l data)"
    by (simp add: getScoreDistribution_counts o_def)
  then have "sum_list (map snd (getScoreDistribution data)) = length data"
    by (simp only: sum_countIn)
  moreover have "getScoreDistribution (data @ [d])
                   = increment (getScoreDistribution data) (scoreBand d)"
    by (simp add: getScoreDistribution_def)
  ultimately show ?thesis
    by (simp add: getScoreDistribution_counts scoreBand_num)
qed

theorem scoreDistribution_bands_witness:
  "get [(''marks'', JNum 20)] ''marks'' = Some (JNum 20)
   \<and> scoreBand [(''marks'', JNum 20)] = ''0-20''
   \<and> getScoreDistribution ([[(''marks'', JNum 40)]] @ [[(''marks'', JNum 20)]])
       = [(''0-20'', 1), (''21-40'', 1), (''41-60'', 0), (''61-80'', 0), (''81-100'', 0)]"
proof -
  let ?d = "[(''marks'', JNum 20)]"
  let ?e = "[(''marks'', JNum 40)]"
  have h: "get ?d ''marks'' = Some (JNum 20)"
    by (simp add: get_def)
  have e: "getScoreDistribution [?e]
             = [(''0-20'', 0), (''21-40'', 1), (''41-60'', 0), (''61-80'', 0), (''81-100'', 0)]"
    by code_simp
  from scoreDistribution_bands[of "[?e]" ?d 20] h
  have b: "scoreBand ?d = ''0-20''"
    and s: "getScoreDistribution ([?e] @ [?d]) = increment (getScoreDistribution [?e]) (scoreBand ?d)"
    by blast+
  have "getScoreDistribution ([?e] @ [?d])
          = [(''0-20'', 1), (''21-40'', 1), (''41-60'', 0), (''61-80'', 0), (''81-100'', 0)]"
    unfolding s b e by (simp add: increment_def)
  with h b show ?thesis
    by blast
qed

section \<open>What the assessment of a list changes\<close>

text \<open>An assessment reads nothing of a record but its marks and its attendance.\<close>

lemma assessStudent_reads_marks_attendance:
  "get a ''marks'' = get b ''marks'' \<Longrightarrow> get a ''attendance'' = get b ''attendance'' \<Longrightarrow>
   assessStudent a = assessStudent b"
  by (simp add: assessStudent_def calculateRiskScore_def rules_def getRiskFactors_def
        marksOf_def attendanceOf_def)

text \<open>
  Claim C10. \<open>assessAllStudents\<close> returns a list of the same length; its record at each
  position has every property of the input record at that position except \<open>riskScore\<close>,
  \<open>riskLevel\<close> and \<open>riskFactors\<close>, and these three are the assessment of that input
  record alone, which is the same for any two records with the same marks and the same
  attendance.
\<close>

theorem assessAllStudents_frame:
  "length (assessAllStudents xs) = length xs
   \<and> (\<forall>i < length xs.
        (\<forall>k. k \<notin> {''riskScore'', ''riskLevel'', ''riskFactors''} \<longrightarrow>
              get (assessAllStudents xs ! i) k = get (xs ! i) k)
        \<and> get (assessAllStudents xs ! i) ''riskScore''
            = Some (JNum (of_int (riskScore (assessStudent (xs ! i)))))
        \<and> get (assessAllStudents xs ! i) ''riskLevel''
            = Some (JStr (riskLevel (assessStudent (xs ! i))))
        \<and> get (assessAllStudents xs ! i) ''riskFactors''
            = Some (JArr (factors (assessStudent (xs ! i)))))
   \<and> (get a ''marks'' = get b ''marks'' \<and> get a ''attendance'' = get b ''attendance''
        \<longrightarrow> assessStudent a = assessStudent b)"
proof (intro conjI)
  show "get a ''marks'' = get b ''marks'' \<and> get a ''attendance'' = get b ''attendance''
        \<longrightarrow> assessStudent a = assessStudent b"
    using assessStudent_reads_marks_attendance by blast
qed (simp_all add: assessAllStudents_def Let_def get_put)

theorem assessAllStudents_frame_witness:
  "(1::nat) < length [[(''name'', JStr ''A''), (''marks'', JNum 25)],
                      [(''name'', JStr ''B''), (''riskLevel'', JStr ''old''), (''marks'', JNum 85),
                       (''attendance'', JNum 95)]]
   \<and> ''name'' \<notin> {''riskScore'', ''riskLevel'', ''riskFactors''}
   \<and> get (assessAllStudents
             [[(''name'', JStr ''A''), (''marks'', JNum 25)],
              [(''name'', JStr ''B''), (''riskLevel'', JStr ''old''), (''marks'', JNum 85),
               (''attendance'', JNum 95)]] ! 1) ''name'' = Some (JStr ''B'')
   \<and> get (assessAllStudents
             [[(''name'', JStr ''A''), (''marks'', JNum 25)],
              [(''name'', JStr ''B''), (''riskLevel'', JStr ''old''), (''marks'', JNum 85),
               (''attendance'', JNum 95)]] ! 1) ''riskLevel'' = Some (JStr ''none'')
   \<and> get [(''name'', JStr ''A''), (''marks'', JNum 25)] ''marks''
       = get [(''marks'', JNum 25), (''name'', JStr ''C'')] ''marks''
   \<and> get [(''name'', JStr ''A''), (''marks'', JNum 25)] ''attendance''
       = get [(''marks'', JNum 25), (''name'', JStr ''C'')] ''attendance''
   \<and> assessStudent [(''name'', JStr ''A''), (''marks'', JNum 25)]
       = assessStudent [(''marks'', JNum 25), (''name'', JStr ''C'')]"
proof -
  let ?a = "[(''name'', JStr ''A''), (''marks'', JNum 25)]"
  let ?b = "[(''name'', JStr ''B''), (''riskLevel'', JStr ''old''), (''marks'', JNum 85),
             (''attendance'', JNum 95)]"
  let ?c = "[(''marks'', JNum 25), (''name'', JStr ''C'')]"
  let ?xs = "[?a, ?b]"
  have i: "(1::nat) < length ?xs"
    by simp
  have k: "''name'' \<notin> {''riskScore'', ''riskLevel'', ''riskFactors''}"
    by simp
  have x: "?xs ! 1 = ?b"
    by simp
  have l: "riskLevel (assessStudent ?b) = ''none''"
    by code_simp
  have n: "get ?b ''name'' = Some (JStr ''B'')"
    by (simp add: get_def)
  have m: "get ?a ''marks'' = get ?c ''marks''"
    and t: "get ?a ''attendance'' = get ?c ''attendance''"
    by (simp_all add: get_def)
  note f = assessAllStudents_frame[of ?xs ?a ?c, THEN conjunct2, THEN conjunct1, rule_format, OF i]
  have "get (assessAllStudents ?xs ! 1) ''name'' = get (?xs ! 1) ''name''"
    using f[THEN conjunct1, rule_format, OF k] .
  then have a: "get (assessAllStudents ?xs ! 1) ''name'' = Some (JStr ''B'')"
    by (simp only: x n)
  have "get (assessAllStudents ?xs ! 1) ''riskLevel''
          = Some (JStr (riskLevel (assessStudent (?xs ! 1))))"
    using f[THEN conjunct2, THEN conjunct2, THEN conjunct1] .
  then have b: "get (assessAllStudents ?xs ! 1) ''riskLevel'' = Some (JStr ''none'')"
    by (simp only: x l)
  have s: "assessStudent ?a = assessStudent ?c"
    using assessAllStudents_frame[of ?xs ?a ?c, THEN conjunct2, THEN conjunct2, rule_format,
        OF conjI[OF m t]] .
  show ?thesis
    by (intro conjI i k a b m t s)
qed

section \<open>The scenario of the two students\<close>

text \<open>
  Claim C1. The text of the scenario parses into the records of Alice (marks 25,
  attendance 45) and Bob (marks 85, attendance 95). All six rules fire for Alice and her
  raw score is capped at 1: risk score 100, level \<open>high\<close>. No rule fires for Bob: risk
  score 0, level \<open>none\<close>. The pass rate over the two assessed records is 50. The reading
  of the clock only enters the row ids.
\<close>

theorem scenario_alice_bob:
  "(case snd (parseCSV newParser clock
        ''id,name,subject,marks,attendance,semester\<newline>S1,Alice,Math,25,45,1\<newline>S2,Bob,Math,85,95,1'') of
      Inl e \<Rightarrow> False
    | Inr data \<Rightarrow>
        map (\<lambda>s. (get s ''name'', get s ''marks'', get s ''attendance'')) data
          = [(Some (JStr ''Alice''), Some (JNum 25), Some (JNum 45)),
             (Some (JStr ''Bob''), Some (JNum 85), Some (JNum 95))]
        \<and> map (\<lambda>s. map name (filter (\<lambda>r. check r s) rules)) data
          = [[''Low Score'', ''Very Low Score'', ''Low Attendance'', ''Very Low Attendance'',
              ''Combined Risk'', ''Critical Risk''], []]
        \<and> map calculateRiskScore data = [1, 0]
        \<and> map (\<lambda>s. (riskScore (assessStudent s), riskLevel (assessStudent s))) data
          = [(100, ''high''), (0, ''none'')]
        \<and> map (\<lambda>s. (get s ''riskScore'', get s ''riskLevel'')) (assessAllStudents data)
          = [(Some (JNum 100), Some (JStr ''high'')), (Some (JNum 0), Some (JStr ''none''))]
        \<and> getPassRate (assessAllStudents data) = 50)"
  by code_simp

section \<open>Substrings\<close>

text \<open>\<open>includesStr\<close> is the substring relation.\<close>

lemma startsWith_iff: "startsWith s p \<longleftrightarrow> (\<exists>vs. s = p @ vs)"
  by (induction s p rule: startsWith.induct) auto

lemma includesStr_iff: "includesStr s p \<longleftrightarrow> (\<exists>us vs. s = us @ p @ vs)"
proof (induction s)
  case Nil
  then show ?case by simp
next
  case (Cons c cs)
  have "(\<exists>us vs. c # cs = us @ p @ vs) \<longleftrightarrow> (\<exists>vs. c # cs = p @ vs) \<or> (\<exists>us vs. cs = us @ p @ vs)"
  proof
    assume "\<exists>us vs. c # cs = us @ p @ vs"
    then obtain us vs where e: "c # cs = us @ p @ vs" by blast
    show "(\<exists>vs. c # cs = p @ vs) \<or> (\<exists>us vs. cs = us @ p @ vs)"
    proof (cases us)
      case Nil
      with e show ?thesis by auto
    next
      case (Cons u us')
      with e have "cs = us' @ p @ vs" by simp
      then show ?thesis by blast
    qed
  next
    assume "(\<exists>vs. c # cs = p @ vs) \<or> (\<exists>us vs. cs = us @ p @ vs)"
    then show "\<exists>us vs. c # cs = us @ p @ vs"
    proof
      assume "\<exists>vs. c # cs = p @ vs"
      then obtain vs where "c # cs = [] @ p @ vs" by auto
      then show ?thesis by blast
    next
      assume "\<exists>us vs. cs = us @ p @ vs"
      then obtain us vs where "c # cs = (c # us) @ p @ vs" by auto
      then show ?thesis by blast
    qed
  qed
  with Cons show ?case by (simp add: startsWith_iff)
qed

section \<open>The filter engine on records whose text fields are text\<close>

text \<open>A sort whose comparator never throws returns a permutation of its input.\<close>

lemma insertSorted_total:
  "\<forall>y \<in> set ys. \<exists>c. cmp x y = Inr c \<Longrightarrow>
   \<exists>zs. insertSorted cmp x ys = Inr zs \<and> mset zs = add_mset x (mset ys)"
proof (induction ys)
  case Nil
  then show ?case by simp
next
  case (Cons y ys)
  then obtain c where c: "cmp x y = Inr c" by auto
  from Cons obtain zs where zs: "insertSorted cmp x ys = Inr zs" "mset zs = add_mset x (mset ys)"
    by auto
  show ?case
    using c zs by (cases "c \<le> 0") simp_all
qed

lemma sortWith_total:
  "\<forall>x \<in> set xs. \<forall>y \<in> set xs. \<exists>c. cmp x y = Inr c \<Longrightarrow>
   \<exists>ys. sortWith cmp xs = Inr ys \<and> mset ys = mset xs"
proof (induction xs)
  case Nil
  then show ?case by simp
next
  case (Cons x xs)
  then obtain ys where ys: "sortWith cmp xs = Inr ys" "mset ys = mset xs"
    by auto
  from ys(2) have "set ys = set xs" by (rule mset_eq_setD)
  with Cons.prems have "\<forall>y \<in> set ys. \<exists>c. cmp x y = Inr c" by simp
  from insertSorted_total[where cmp = cmp and x = x and ys = ys] this obtain zs where
    "insertSorted cmp x ys = Inr zs" "mset zs = add_mset x (mset ys)"
    by blast
  with ys show ?case by simp
qed

lemma sortValue_name_text:
  "textOrFalsy r ''name'' \<Longrightarrow> \<exists>s. sortValue ''name'' r = Inr (JStr s)"
  by (auto simp: textOrFalsy_def sortValue_def orEmpty_def split: option.splits jsval.splits)

lemma comparator_default_total:
  "textOrFalsy a ''name'' \<Longrightarrow> textOrFalsy b ''name'' \<Longrightarrow>
   \<exists>c. comparator lc defaultSort a b = Inr c"
  using sortValue_name_text[of a] sortValue_name_text[of b]
  by (auto simp: comparator_def defaultSort_def compareValues_def)

text \<open>
  When the comparator is total and transitive on the elements, the sorted array is in
  order; the default comparator is so on records with text names when the collation is.
\<close>

lemma insertSorted_cases:
  assumes "insertSorted cmp x (y # ys) = Inr zs"
  obtains (front) c where "cmp x y = Inr c" "c \<le> 0" "zs = x # y # ys"
  | (later) c ws where "cmp x y = Inr c" "\<not> c \<le> 0" "insertSorted cmp x ys = Inr ws" "zs = y # ws"
proof (cases "cmp x y")
  case (Inl e)
  with assms show ?thesis by simp
next
  case (Inr c)
  show ?thesis
  proof (cases "c \<le> 0")
    case True
    with Inr assms have "zs = x # y # ys" by simp
    with Inr True show ?thesis by (rule front)
  next
    case False
    show ?thesis
    proof (cases "insertSorted cmp x ys")
      case (Inl e)
      with Inr False assms show ?thesis by simp
    next
      case ws: (Inr ws)
      with Inr False assms have "zs = y # ws" by simp
      with Inr False ws show ?thesis by (rule later)
    qed
  qed
qed

lemma insertSorted_set:
  "insertSorted cmp x ys = Inr zs \<Longrightarrow> set zs = insert x (set ys)"
proof (induction ys arbitrary: zs)
  case Nil
  then show ?case by auto
next
  case (Cons y ys)
  from Cons.prems show ?case
  proof (cases rule: insertSorted_cases)
    case (front c)
    then show ?thesis by simp
  next
    case (later c ws)
    from Cons.IH[OF later(3)] later(4) show ?thesis by auto
  qed
qed

lemma insertSorted_sorted:
  assumes total: "\<And>a b. D a \<Longrightarrow> D b \<Longrightarrow> comesFirst cmp a b \<or> comesFirst cmp b a"
    and trans: "\<And>a b c. comesFirst cmp a b \<Longrightarrow> comesFirst cmp b c \<Longrightarrow> comesFirst cmp a c"
    and dx: "D x"
  shows "\<forall>y \<in> set ys. D y \<Longrightarrow> sorted_wrt (comesFirst cmp) ys \<Longrightarrow>
         insertSorted cmp x ys = Inr zs \<Longrightarrow> sorted_wrt (comesFirst cmp) zs"
proof (induction ys arbitrary: zs)
  case Nil
  then show ?case by auto
next
  case (Cons y ys)
  from Cons.prems(2) have tail: "sorted_wrt (comesFirst cmp) ys"
    and head: "\<forall>z \<in> set ys. comesFirst cmp y z"
    by simp_all
  from Cons.prems(1) have dy: "D y" and dys: "\<forall>z \<in> set ys. D z"
    by simp_all
  from Cons.prems(3) show ?case
  proof (cases rule: insertSorted_cases)
    case (front c)
    then have xy: "comesFirst cmp x y" by (simp add: comesFirst_def)
    have "\<forall>z \<in> set ys. comesFirst cmp x z"
    proof
      fix z
      assume "z \<in> set ys"
      with head have "comesFirst cmp y z" by simp
      with xy show "comesFirst cmp x z" by (rule trans)
    qed
    with xy head tail front(3) show ?thesis by simp
  next
    case (later c ws)
    then have "\<not> comesFirst cmp x y" by (simp add: comesFirst_def)
    with total[OF dx dy] have yx: "comesFirst cmp y x" by simp
    from Cons.IH[OF dys tail later(3)] have "sorted_wrt (comesFirst cmp) ws" .
    moreover have "\<forall>z \<in> set ws. comesFirst cmp y z"
      unfolding insertSorted_set[OF later(3)] using yx head by simp
    ultimately show ?thesis using later(4) by simp
  qed
qed

lemma sortWith_set:
  "sortWith cmp xs = Inr ys \<Longrightarrow> set ys = set xs"
proof (induction xs arbitrary: ys)
  case Nil
  then show ?case by simp
next
  case (Cons x xs)
  show ?case
  proof (cases "sortWith cmp xs")
    case (Inl e)
    with Cons.prems show ?thesis by simp
  next
    case (Inr ws)
    with Cons.prems have "insertSorted cmp x ws = Inr ys" by simp
    from insertSorted_set[OF this] Cons.IH[OF Inr] show ?thesis by simp
  qed
qed

lemma sortWith_sorted:
  assumes total: "\<And>a b. D a \<Longrightarrow> D b \<Longrightarrow> comesFirst cmp a b \<or> comesFirst cmp b a"
    and trans: "\<And>a b c. comesFirst cmp a b \<Longrightarrow> comesFirst cmp b c \<Longrightarrow> comesFirst cmp a c"
  shows "\<forall>x \<in> set xs. D x \<Longrightarrow> sortWith cmp xs = Inr ys \<Longrightarrow>
         sorted_wrt (comesFirst cmp) ys"
proof (induction xs arbitrary: ys)
  case Nil
  then show ?case by simp
next
  case (Cons x xs)
  show ?case
  proof (cases "sortWith cmp xs")
    case (Inl e)
    with Cons.prems show ?thesis by simp
  next
    case (Inr ws)
    with Cons.prems(2) have ins: "insertSorted cmp x ws = Inr ys" by simp
    from Cons.prems(1) have dx: "D x" and dxs: "\<forall>z \<in> set xs. D z"
      by simp_all
    from Cons.IH[OF dxs Inr] have sw: "sorted_wrt (comesFirst cmp) ws" .
    from dxs sortWith_set[OF Inr] have dws: "\<forall>z \<in> set ws. D z" by simp
    show ?thesis
      by (rule insertSorted_sorted[where D = D, OF total trans dx dws sw ins])
  qed
qed

lemma sortValue_name_cases:
  obtains (throws) e where "sortValue ''name'' r = Inl e"
  | (named) s where "sortValue ''name'' r = Inr (JStr s)"
  by (cases "orEmpty (get r ''name'')") (auto simp: sortValue_def)

lemma comesFirst_default:
  "comesFirst (comparator lc defaultSort) a b \<longleftrightarrow>
     (\<exists>sa sb. sortValue ''name'' a = Inr (JStr sa) \<and> sortValue ''name'' b = Inr (JStr sb)
              \<and> lc sa sb \<le> 0)"
proof (cases rule: sortValue_name_cases[where r = a])
  case (throws e)
  then show ?thesis
    by (simp add: comesFirst_def comparator_def defaultSort_def)
next
  case a: (named sa)
  show ?thesis
  proof (cases rule: sortValue_name_cases[where r = b])
    case (throws e)
    with a show ?thesis
      by (simp add: comesFirst_def comparator_def defaultSort_def)
  next
    case (named sb)
    with a show ?thesis
      by (simp add: comesFirst_def comparator_def defaultSort_def compareValues_def)
  qed
qed

lemma sortWith_default_sorted:
  assumes names: "\<forall>r \<in> set xs. textOrFalsy r ''name''"
    and total: "\<And>s t. lc s t \<le> 0 \<or> lc t s \<le> 0"
    and trans: "\<And>s t u. lc s t \<le> 0 \<Longrightarrow> lc t u \<le> 0 \<Longrightarrow> lc s u \<le> 0"
    and run: "sortWith (comparator lc defaultSort) xs = Inr ys"
  shows "sorted_wrt (comesFirst (comparator lc defaultSort)) ys"
proof (rule sortWith_sorted[where D = "\<lambda>r. textOrFalsy r ''name''", OF _ _ names run])
  fix a b
  assume "textOrFalsy a ''name''" "textOrFalsy b ''name''"
  then obtain sa sb where
    "sortValue ''name'' a = Inr (JStr sa)" "sortValue ''name'' b = Inr (JStr sb)"
    using sortValue_name_text by blast
  with total[of sa sb]
  show "comesFirst (comparator lc defaultSort) a b \<or> comesFirst (comparator lc defaultSort) b a"
    by (auto simp: comesFirst_default)
next
  fix a b c
  assume "comesFirst (comparator lc defaultSort) a b" "comesFirst (comparator lc defaultSort) b c"
  then obtain sa sb sc where
    k: "sortValue ''name'' a = Inr (JStr sa)" "sortValue ''name'' b = Inr (JStr sb)"
       "sortValue ''name'' c = Inr (JStr sc)"
    and le: "lc sa sb \<le> 0" "lc sb sc \<le> 0"
    by (auto simp: comesFirst_default)
  from trans[OF le] k show "comesFirst (comparator lc defaultSort) a c"
    by (auto simp: comesFirst_default)
qed

text \<open>
  A search over records whose \<open>name\<close>, \<open>studentId\<close> and \<open>subject\<close> are strings or
  falsy, the other filters being empty and the sort the default one, succeeds and keeps the
  records that have the trimmed lower-case query in one of the three fields, all of them
  when that query is empty.
\<close>

lemma fieldIncludes_text:
  "textOrFalsy item f \<Longrightarrow> fieldIncludes item f q = Inr (fieldHas item f q)"
  by (auto simp: textOrFalsy_def fieldIncludes_def fieldHas_def split: option.splits jsval.splits)

lemma matchesSearch_text:
  "textOrFalsy item ''name'' \<Longrightarrow> textOrFalsy item ''studentId'' \<Longrightarrow> textOrFalsy item ''subject'' \<Longrightarrow>
   matchesSearch q item
     = Inr (fieldHas item ''name'' q \<or> fieldHas item ''studentId'' q \<or> fieldHas item ''subject'' q)"
  by (cases "fieldHas item ''name'' q"; cases "fieldHas item ''studentId'' q")
     (simp_all add: matchesSearch_def fieldIncludes_text)

lemma filterE_total:
  "\<forall>x \<in> set xs. f x = Inr (g x) \<Longrightarrow> filterE f xs = Inr (filter g xs)"
  by (induction xs) auto

lemma setSearch_selects_text_fields:
  assumes "\<forall>r \<in> set (originalData fe).
             textOrFalsy r ''name'' \<and> textOrFalsy r ''studentId'' \<and> textOrFalsy r ''subject''"
    and "subjectF (currentFilters fe) = []" "semesterF (currentFilters fe) = []"
      "riskLevelF (currentFilters fe) = []" "currentSort fe = defaultSort"
  shows "\<exists>sortedData.
           setSearch lc query fe
             = (fe\<lparr>currentFilters := (currentFilters fe)\<lparr>searchF := trim (toLowerCase query)\<rparr>,
                    filteredData := sortedData\<rparr>, None)
           \<and> mset sortedData
               = mset (filter (\<lambda>r. trim (toLowerCase query) = []
                                   \<or> fieldHas r ''name'' (trim (toLowerCase query))
                                   \<or> fieldHas r ''studentId'' (trim (toLowerCase query))
                                   \<or> fieldHas r ''subject'' (trim (toLowerCase query)))
                             (originalData fe))"
proof -
  define q where "q = trim (toLowerCase query)"
  define kept where
    "kept = filter (\<lambda>r. q = [] \<or> fieldHas r ''name'' q \<or> fieldHas r ''studentId'' q
                        \<or> fieldHas r ''subject'' q) (originalData fe)"
  define fe' where "fe' = fe\<lparr>currentFilters := (currentFilters fe)\<lparr>searchF := q\<rparr>\<rparr>"
  have "\<forall>x \<in> set kept. textOrFalsy x ''name''"
    using assms(1) by (simp add: kept_def)
  then have "\<forall>x \<in> set kept. \<forall>y \<in> set kept. \<exists>c. comparator lc defaultSort x y = Inr c"
    using comparator_default_total by blast
  from sortWith_total[OF this] obtain ys where
    ys: "sortWith (comparator lc defaultSort) kept = Inr ys" "mset ys = mset kept"
    by blast
  have "applyFilters lc fe' = Inr (fe'\<lparr>filteredData := ys\<rparr>)"
  proof (cases "q = []")
    case True
    then have "kept = originalData fe"
      by (simp add: kept_def)
    with True ys(1) assms(2-5) show ?thesis
      by (simp add: applyFilters_def fe'_def sortData_def Let_def)
  next
    case False
    have "filterE (matchesSearch q) (originalData fe)
            = Inr (filter (\<lambda>r. fieldHas r ''name'' q \<or> fieldHas r ''studentId'' q
                                \<or> fieldHas r ''subject'' q) (originalData fe))"
      using assms(1) by (intro filterE_total) (simp add: matchesSearch_text)
    with False have "filterE (matchesSearch q) (originalData fe) = Inr kept"
      by (simp add: kept_def)
    with False ys(1) assms(2-5) show ?thesis
      by (simp add: applyFilters_def fe'_def sortData_def Let_def)
  qed
  then have "setSearch lc query fe = (fe'\<lparr>filteredData := ys\<rparr>, None)"
    by (simp add: setSearch_def rederive_def fe'_def q_def)
  with ys(2) show ?thesis
    unfolding fe'_def kept_def q_def by (intro exI[of _ ys] conjI)
qed

text \<open>
  Claim C7. Deriving the filtered view never fails on a record set from the parser. This
  does not hold of the code: \<open>cleanValue\<close> turns the cell \<open>101\<close> into a number, the
  search callback reaches \<open>item.studentId.toLowerCase\<close> once the name does not match,
  and the call throws. The theorem runs the parser, the risk engine, \<open>setData\<close> and
  \<open>setSearch\<close> on that input, for any clock and any collation.
\<close>

theorem search_numeric_id_throws:
  "(case snd (parseCSV newParser clock ''id,name\<newline>101,Alice'') of
      Inl e \<Rightarrow> False
    | Inr data \<Rightarrow>
        map (\<lambda>r. (get r ''studentId'', get r ''name'')) data
          = [(Some (JNum 101), Some (JStr ''Alice''))]
        \<and> snd (setData lc (assessAllStudents data) newFilterEngine) = None
        \<and> snd (setSearch lc ''x'' (fst (setData lc (assessAllStudents data) newFilterEngine)))
            = Some (TypeError ''item.studentId.toLowerCase is not a function''))"
  by code_simp

section \<open>Clearing the filters\<close>

text \<open>
  \<open>clearFilters\<close> always leaves the default filters and the default sort, and never
  touches the base set. When every name of the base set is a string or falsy it succeeds,
  and the view is the base set sorted by the default comparator, a permutation of it.
\<close>

lemma applyFilters_only_filteredData:
  "applyFilters lc fe = Inr fe' \<Longrightarrow> \<exists>sortedData. fe' = fe\<lparr>filteredData := sortedData\<rparr>"
  unfolding applyFilters_def Let_def
  by (auto split: sum.splits simp del: split_paired_Ex split del: if_split)

lemma rederive_only_filteredData:
  "\<exists>sortedData. fst (rederive lc fe) = fe\<lparr>filteredData := sortedData\<rparr>"
proof (cases "applyFilters lc fe")
  case (Inl e)
  then have "fst (rederive lc fe) = fe\<lparr>filteredData := filteredData fe\<rparr>"
    by (simp add: rederive_def)
  then show ?thesis by blast
next
  case (Inr fe')
  with applyFilters_only_filteredData[OF Inr] show ?thesis
    by (auto simp: rederive_def)
qed

lemma clearFilters_resets_query:
  "currentFilters (fst (clearFilters lc fe)) = defaultFilters
   \<and> currentSort (fst (clearFilters lc fe)) = defaultSort
   \<and> originalData (fst (clearFilters lc fe)) = originalData fe"
proof -
  obtain sd where
    "fst (clearFilters lc fe)
       = fe\<lparr>currentFilters := defaultFilters, currentSort := defaultSort, filteredData := sd\<rparr>"
    unfolding clearFilters_def
    using rederive_only_filteredData[of lc "fe\<lparr>currentFilters := defaultFilters, currentSort := defaultSort\<rparr>"]
    by blast
  then show ?thesis by simp
qed

lemma clearFilters_restores_text_names:
  assumes "\<forall>r \<in> set (originalData fe). textOrFalsy r ''name''"
  shows "\<exists>sortedData.
           clearFilters lc fe
             = (fe\<lparr>currentFilters := defaultFilters, currentSort := defaultSort,
                    filteredData := sortedData\<rparr>, None)
           \<and> sortWith (comparator lc defaultSort) (originalData fe) = Inr sortedData
           \<and> mset sortedData = mset (originalData fe)"
proof -
  have "\<forall>x \<in> set (originalData fe). \<forall>y \<in> set (originalData fe).
          \<exists>c. comparator lc defaultSort x y = Inr c"
    using assms comparator_default_total by blast
  from sortWith_total[OF this] obtain ys where
    ys: "sortWith (comparator lc defaultSort) (originalData fe) = Inr ys"
      "mset ys = mset (originalData fe)"
    by blast
  then show ?thesis
    by (simp add: clearFilters_def rederive_def applyFilters_def sortData_def defaultFilters_def Let_def)
qed

lemma clearFilters_view_sorted:
  assumes names: "\<forall>r \<in> set (originalData fe). textOrFalsy r ''name''"
    and total: "\<And>s t. lc s t \<le> 0 \<or> lc t s \<le> 0"
    and trans: "\<And>s t u. lc s t \<le> 0 \<Longrightarrow> lc t u \<le> 0 \<Longrightarrow> lc s u \<le> 0"
  shows "sorted_wrt (comesFirst (comparator lc defaultSort))
           (getFilteredData (fst (clearFilters lc fe)))"
proof -
  from clearFilters_restores_text_names[OF names, of lc] obtain sortedData where
    res: "clearFilters lc fe
            = (fe\<lparr>currentFilters := defaultFilters, currentSort := defaultSort,
                   filteredData := sortedData\<rparr>, None)"
    and run: "sortWith (comparator lc defaultSort) (originalData fe) = Inr sortedData"
    by blast
  from res have "getFilteredData (fst (clearFilters lc fe)) = sortedData"
    by (simp add: getFilteredData_def)
  with sortWith_default_sorted[OF names total trans run] show ?thesis
    by simp
qed

text \<open>
  Claim C9. After \<open>clearFilters\<close> the view is the whole base set in the default order.
  This does not hold of the code on a base set from the parser with two records of which
  one has a name that reads as a number: \<open>cleanValue\<close> turns the cell \<open>2pac\<close> into the
  number 2, the comparator of \<open>sortData\<close> calls \<open>toLowerCase\<close> on it and throws, in
  \<open>setData\<close> and again in \<open>clearFilters\<close>, and the view stays empty.
\<close>

theorem clearFilters_numeric_name_throws:
  "(case snd (parseCSV newParser clock ''id,name\<newline>S1,2pac\<newline>S2,Bob'') of
      Inl e \<Rightarrow> False
    | Inr data \<Rightarrow>
        map (\<lambda>r. get r ''name'') data = [Some (JNum 2), Some (JStr ''Bob'')]
        \<and> snd (setData lc (assessAllStudents data) newFilterEngine)
            = Some (TypeError ''a.name.toLowerCase is not a function'')
        \<and> originalData (fst (setData lc (assessAllStudents data) newFilterEngine))
            = assessAllStudents data
        \<and> snd (clearFilters lc (fst (setData lc (assessAllStudents data) newFilterEngine)))
            = Some (TypeError ''a.name.toLowerCase is not a function'')
        \<and> getFilteredData
              (fst (clearFilters lc (fst (setData lc (assessAllStudents data) newFilterEngine))))
            = [])"
  by code_simp

section \<open>Export and parsing again\<close>


end
